theory Spec2Isabelle
  imports Main "HOL-Library.Word"
begin

section \<open>The type-erased value container of ScriptingCore/variant.h\<close>

text \<open>
  The header declares \<^verbatim>\<open>FB::variant\<close>: a \<^verbatim>\<open>boost::any\<close> together with a function
  pointer that compares two erased values. The bodies the header contains are embedded
  below as they are written: the sentinel types \<^verbatim>\<open>null\<close> and \<^verbatim>\<open>empty\<close>, the
  comparators \<^verbatim>\<open>variant_detail::lessthan<T>::impl\<close>, their specialisation for
  \<^verbatim>\<open>std::weak_ptr<T>\<close>, \<^verbatim>\<open>variant::lessthan_default\<close>, the exception
  \<^verbatim>\<open>bad_variant_cast\<close> and the default constructor. A C++ exception is the \<open>Inl\<close> side
  of a sum.
\<close>

subsection \<open>Run-time type identities\<close>

text \<open>
  The payload types of the embedding. \<open>T_void\<close> is \<^verbatim>\<open>typeid(void)\<close>, which
  \<^verbatim>\<open>boost::any::type()\<close> reports for an object that holds nothing; \<open>T_opaque\<close> stands
  for a caller-defined type that has no \<^verbatim>\<open>operator<\<close>. \<^verbatim>\<open>std::weak_ptr<C>\<close> is a
  type of its own for every pointee class \<open>C\<close>: \<open>T_weak_ptr c\<close> is the identity of the
  weak pointer to the class numbered \<open>c\<close>.
\<close>

datatype type_id =
  T_void | T_null | T_empty | T_bool | T_int | T_uint | T_string | T_weak_ptr nat | T_opaque

text \<open>
  \<^verbatim>\<open>std::type_info\<close>: an identity and an implementation-defined name. The names are
  not fixed by the language, so \<open>typeid\<close> takes the naming \<open>nm\<close> as a parameter.
\<close>

record type_info =
  tid :: type_id
  name :: string

definition typeid :: "(type_id \<Rightarrow> string) \<Rightarrow> type_id \<Rightarrow> type_info" where
  "typeid nm T = \<lparr>tid = T, name = nm T\<rparr>"

subsection \<open>Sentinel value types (lines 63--73)\<close>

datatype null = Null

datatype empty = Empty

text \<open>\<^verbatim>\<open>bool operator<(const null&) const { return false; }\<close>, and the same for \<^verbatim>\<open>empty\<close>.\<close>

definition null_less :: "null \<Rightarrow> null \<Rightarrow> bool" where
  "null_less l r = False"

definition empty_less :: "empty \<Rightarrow> empty \<Rightarrow> bool" where
  "empty_less l r = False"

subsection \<open>Payloads and \<^verbatim>\<open>boost::any\<close>\<close>

text \<open>
  \<^verbatim>\<open>std::weak_ptr<T>\<close>: the control block it shares ownership through (\<open>owner\<close>, its
  address; 0 for a pointer that owns nothing) and the pointer it would hand out
  (\<open>pointee\<close>). \<^verbatim>\<open>owner_before\<close> is the standard library's owner-based order: it
  compares the control blocks and never looks at the pointee. Weak pointers to two
  classes can share one owner (a base and a derived class, or an aliasing pointer), so
  the pointee class is kept beside the pointer in the payload \<open>P_weak_ptr c w\<close>.
\<close>

record weak_ptr =
  owner :: nat
  pointee :: nat

definition owner_before :: "weak_ptr \<Rightarrow> weak_ptr \<Rightarrow> bool" where
  "owner_before a b = (owner a < owner b)"

datatype payload =
  P_null null
| P_empty empty
| P_bool bool
| P_int "32 word"
| P_uint "32 word"
| P_string string
| P_weak_ptr nat weak_ptr
| P_opaque nat

fun type_of :: "payload \<Rightarrow> type_id" where
  "type_of (P_null _) = T_null"
| "type_of (P_empty _) = T_empty"
| "type_of (P_bool _) = T_bool"
| "type_of (P_int _) = T_int"
| "type_of (P_uint _) = T_uint"
| "type_of (P_string _) = T_string"
| "type_of (P_weak_ptr c _) = T_weak_ptr c"
| "type_of (P_opaque _) = T_opaque"

text \<open>A \<^verbatim>\<open>boost::any\<close> holds one payload or nothing.\<close>

type_synonym any = "payload option"

definition any_type :: "any \<Rightarrow> type_id" where
  "any_type a = (case a of None \<Rightarrow> T_void | Some p \<Rightarrow> type_of p)"

subsection \<open>Exceptions (lines 98--107)\<close>

text \<open>
  \<^verbatim>\<open>bad_variant_cast\<close> has the two fields \<^verbatim>\<open>from\<close> and \<^verbatim>\<open>to\<close>; \<open>from\<close> and \<open>to\<close> are
  Isar keywords, so the fields are \<open>from_name\<close> and \<open>to_name\<close> here.
\<close>

record bad_variant_cast =
  from_name :: string
  to_name :: string

text \<open>
  \<^verbatim>\<open>bad_variant_cast(const std::type_info& src, const std::type_info& dest)
    : from(src.name()), to(dest.name()) { }\<close>
\<close>

definition bad_variant_cast :: "type_info \<Rightarrow> type_info \<Rightarrow> bad_variant_cast" where
  "bad_variant_cast src dest = \<lparr>from_name = name src, to_name = name dest\<rparr>"

text \<open>\<^verbatim>\<open>virtual const char* what() const throw() { return "bad cast"; }\<close>\<close>

definition what :: "bad_variant_cast \<Rightarrow> string" where
  "what e = ''bad cast''"

text \<open>What a call can throw: the header's own exception, or \<^verbatim>\<open>boost::bad_any_cast\<close>.\<close>

datatype exn = Bad_variant_cast bad_variant_cast | Bad_any_cast

text \<open>
  \<^verbatim>\<open>boost::any_cast<T>(const any&)\<close> returns a copy of the held value when the held type
  is exactly \<open>T\<close> and throws \<^verbatim>\<open>bad_any_cast\<close> otherwise, also when nothing is held.
\<close>

definition any_cast :: "type_id \<Rightarrow> any \<Rightarrow> exn + payload" where
  "any_cast T a =
     (case a of
        None \<Rightarrow> Inl Bad_any_cast
      | Some p \<Rightarrow> if type_of p = T then Inr p else Inl Bad_any_cast)"

text \<open>
  The instances \<^verbatim>\<open>any_cast<std::weak_ptr<T>>\<close>, with the result at its own type; \<open>c\<close>
  is the class \<open>T\<close>. A weak pointer to another class is another type: the cast throws.
\<close>

definition any_cast_weak_ptr :: "nat \<Rightarrow> any \<Rightarrow> exn + weak_ptr" where
  "any_cast_weak_ptr c a =
     (case a of
        Some (P_weak_ptr d w) \<Rightarrow> if d = c then Inr w else Inl Bad_any_cast
      | _ \<Rightarrow> Inl Bad_any_cast)"

subsection \<open>The comparators (lines 75--87 and 302--304)\<close>

text \<open>
  The native \<^verbatim>\<open>operator<\<close> of two values of one type: the sentinels' own operators,
  \<^verbatim>\<open>false < true\<close> on \<^verbatim>\<open>bool\<close>, the signed and the unsigned order on \<^verbatim>\<open>int\<close> and
  \<^verbatim>\<open>unsigned\<close>, and the bytewise lexicographic order of \<^verbatim>\<open>std::string\<close>.
\<close>

fun string_less :: "string \<Rightarrow> string \<Rightarrow> bool" where
  "string_less [] [] = False"
| "string_less [] (y # ys) = True"
| "string_less (x # xs) [] = False"
| "string_less (x # xs) (y # ys) =
     (if (of_char x :: nat) < of_char y then True
      else if (of_char y :: nat) < of_char x then False
      else string_less xs ys)"

text \<open>
  \<^verbatim>\<open>lessthan<T>\<close> is instantiated for the types that have an \<^verbatim>\<open>operator<\<close> only
  (\<open>orderable\<close>); the last equation of \<open>value_less\<close> is never reached from
  \<open>lessthan_impl\<close>, whose two casts leave two values of the one type \<open>T\<close>.
\<close>

definition orderable :: "type_id \<Rightarrow> bool" where
  "orderable T = (T \<in> set [T_null, T_empty, T_bool, T_int, T_uint, T_string])"

fun value_less :: "payload \<Rightarrow> payload \<Rightarrow> bool" where
  "value_less (P_null a) (P_null b) = null_less a b"
| "value_less (P_empty a) (P_empty b) = empty_less a b"
| "value_less (P_bool a) (P_bool b) = (a < b)"
| "value_less (P_int a) (P_int b) = (sint a < sint b)"
| "value_less (P_uint a) (P_uint b) = (uint a < uint b)"
| "value_less (P_string a) (P_string b) = string_less a b"
| "value_less _ _ = False"

text \<open>
  \<^verbatim>\<open>static bool impl(const boost::any& l, const boost::any& r) {
      return boost::any_cast<T>(l) < boost::any_cast<T>(r);
  }\<close>
  Either cast may throw; both throw the same exception, so the order in which the
  operands are evaluated does not show in the result.
\<close>

definition lessthan_impl :: "type_id \<Rightarrow> any \<Rightarrow> any \<Rightarrow> exn + bool" where
  "lessthan_impl T l r =
     (case any_cast T l of
        Inl e \<Rightarrow> Inl e
      | Inr a \<Rightarrow>
          (case any_cast T r of
             Inl e \<Rightarrow> Inl e
           | Inr b \<Rightarrow> Inr (value_less a b)))"

text \<open>
  \<^verbatim>\<open>static bool impl(const boost::any& l, const boost::any& r) {
      return boost::any_cast<std::weak_ptr<T>>(l).owner_before(
                 boost::any_cast<std::weak_ptr<T>>(r));
  }\<close>
\<close>

definition lessthan_weak_ptr_impl :: "nat \<Rightarrow> any \<Rightarrow> any \<Rightarrow> exn + bool" where
  "lessthan_weak_ptr_impl c l r =
     (case any_cast_weak_ptr c l of
        Inl e \<Rightarrow> Inl e
      | Inr a \<Rightarrow>
          (case any_cast_weak_ptr c r of
             Inl e \<Rightarrow> Inl e
           | Inr b \<Rightarrow> Inr (owner_before a b)))"

text \<open>
  \<^verbatim>\<open>static bool variant::lessthan_default(const boost::any& l, const boost::any& r) {
      return false;
  }\<close>
\<close>

definition lessthan_default :: "any \<Rightarrow> any \<Rightarrow> exn + bool" where
  "lessthan_default l r = Inr False"

subsection \<open>The container (lines 137--310)\<close>

text \<open>
  The two fields of \<^verbatim>\<open>class variant\<close>:
  \<^verbatim>\<open>boost::any object;\<close> and
  \<^verbatim>\<open>bool(*lessthan)(const boost::any&, const boost::any&);\<close>
\<close>

record variant =
  object :: any
  lessthan :: "any \<Rightarrow> any \<Rightarrow> exn + bool"

text \<open>
  \<^verbatim>\<open>variant() : lessthan(&FB::variant::lessthan_default) { }\<close>: the object is
  default-constructed and holds nothing.
\<close>

definition variant_default :: variant where
  "variant_default = \<lparr>object = None, lessthan = lessthan_default\<rparr>"

section \<open>Operations the header only declares\<close>

text \<open>
  The header declares \<^verbatim>\<open>get_type\<close>, \<^verbatim>\<open>empty\<close>, \<^verbatim>\<open>reset\<close>, \<^verbatim>\<open>cast\<close> and the
  templated constructor and documents them; their bodies are in no file of the sources.
  The definitions of this section follow the specification's sentences about them.
\<close>

text \<open>
  Modelled from the spec: the body of \<^verbatim>\<open>variant::get_type\<close> is missing. "Returns the
  identity of the currently stored concrete type (or the identity representing
  empty/no value when unset)."
\<close>

definition get_type :: "variant \<Rightarrow> type_id" where
  "get_type v = any_type (object v)"

text \<open>
  Modelled from the spec: the body of \<^verbatim>\<open>variant::empty\<close> is missing. The variant is
  empty when there is "no payload ever assigned or explicitly reset"; the header's
  comment says the same: "Returns true if the variant is empty (has not been assigned a
  value or has been reset)."
\<close>

definition empty_variant :: "variant \<Rightarrow> bool" where
  "empty_variant v = (object v = None)"

text \<open>
  Modelled from the spec: the body of \<^verbatim>\<open>variant::reset\<close> is missing. "Clears payload
  to the empty state"; the bound ordering function is "reset to a total-false default
  when emptied".
\<close>

definition reset :: "variant \<Rightarrow> variant" where
  "reset v = v\<lparr>object := None, lessthan := lessthan_default\<rparr>"

text \<open>
  Modelled from the spec: the body of \<^verbatim>\<open>variant::cast\<close> is missing. "Returns the stored
  value reinterpreted as exactly T; fails with a typed cast error (carrying both the
  actual stored type identity and the requested type identity) when the stored type is
  not exactly T."
\<close>

definition cast :: "(type_id \<Rightarrow> string) \<Rightarrow> type_id \<Rightarrow> variant \<Rightarrow> exn + payload" where
  "cast nm T v =
     (case object v of
        None \<Rightarrow> Inl (Bad_variant_cast (bad_variant_cast (typeid nm (get_type v)) (typeid nm T)))
      | Some p \<Rightarrow>
          if type_of p = T then Inr p
          else Inl (Bad_variant_cast (bad_variant_cast (typeid nm (get_type v)) (typeid nm T))))"

text \<open>
  Modelled from the spec: the body of the constructor \<^verbatim>\<open>variant(const T& x)\<close> is
  missing. "construct(x) captures x's concrete runtime type and a copy of its value";
  weak references are bound to the owner-identity order, "all other types compare via
  their native less-than relation", and a type "lacking a usable native ordering is
  bound to a function that always reports false".
\<close>

definition variant_ctor :: "payload \<Rightarrow> variant" where
  "variant_ctor x =
     \<lparr>object = Some x,
      lessthan =
        (case type_of x of
           T_weak_ptr c \<Rightarrow> lessthan_weak_ptr_impl c
         | T \<Rightarrow> if orderable T then lessthan_impl T else lessthan_default)\<rparr>"

section \<open>Properties of the comparators and of the exception\<close>

lemma any_cast_mismatch: "any_type a \<noteq> T \<Longrightarrow> any_cast T a = Inl Bad_any_cast"
  by (cases a) (simp_all add: any_cast_def any_type_def)

lemma any_cast_match: "type_of p = T \<Longrightarrow> any_cast T (Some p) = Inr p"
  by (simp add: any_cast_def)

lemma any_cast_cases: "any_cast T a = Inl Bad_any_cast \<or> (\<exists>p. a = Some p \<and> type_of p = T \<and> any_cast T a = Inr p)"
  by (cases a) (simp_all add: any_cast_def)

text \<open>
  Claim C9. Whatever two type identities \<^verbatim>\<open>bad_variant_cast\<close> is constructed with, its
  \<^verbatim>\<open>what()\<close> is the constant string "bad cast"; the two identities are kept in the fields
  \<^verbatim>\<open>from\<close> and \<^verbatim>\<open>to\<close> only, as the names the two \<^verbatim>\<open>type_info\<close> objects gave at
  construction.
\<close>

theorem bad_variant_cast_what_constant:
  "what (bad_variant_cast src dest) = ''bad cast''
   \<and> what (bad_variant_cast src dest) = what (bad_variant_cast src' dest')
   \<and> from_name (bad_variant_cast src dest) = name src
   \<and> to_name (bad_variant_cast src dest) = name dest"
  by (simp add: what_def bad_variant_cast_def)

text \<open>
  Claim C10. For an orderable type \<open>T\<close> the comparator \<^verbatim>\<open>lessthan<T>::impl\<close> returns
  a result only when both erased arguments hold a value of exactly \<open>T\<close>, and then it is
  the native order of the two values. When either argument holds another type (or
  nothing) the unchecked \<^verbatim>\<open>any_cast\<close> throws \<^verbatim>\<open>bad_any_cast\<close>: the comparator does
  not return false there, unlike \<^verbatim>\<open>lessthan_default\<close>, which the unorderable types use.
\<close>

theorem lessthan_impl_throws_on_other_type:
  assumes "orderable T"
  shows "(any_type l \<noteq> T \<or> any_type r \<noteq> T \<longrightarrow>
            lessthan_impl T l r = Inl Bad_any_cast
            \<and> lessthan_default l r = Inr False
            \<and> lessthan_impl T l r \<noteq> lessthan_default l r)
         \<and> (any_type l = T \<and> any_type r = T \<longrightarrow>
            (\<exists>a b. l = Some a \<and> r = Some b
                   \<and> lessthan_impl T l r = Inr (value_less a b)))"
proof (intro conjI impI)
  assume mismatch: "any_type l \<noteq> T \<or> any_type r \<noteq> T"
  show thrown: "lessthan_impl T l r = Inl Bad_any_cast"
  proof (cases "any_type l = T")
    case False
    then show ?thesis
      by (simp add: lessthan_impl_def any_cast_mismatch)
  next
    case True
    with mismatch have "any_cast T r = Inl Bad_any_cast"
      by (simp add: any_cast_mismatch)
    moreover from any_cast_cases [of T l]
    have "any_cast T l = Inl Bad_any_cast \<or> (\<exists>p. any_cast T l = Inr p)"
      by blast
    ultimately show ?thesis
      by (auto simp: lessthan_impl_def)
  qed
  show "lessthan_default l r = Inr False"
    by (simp add: lessthan_default_def)
  from thrown show "lessthan_impl T l r \<noteq> lessthan_default l r"
    by (simp add: lessthan_default_def)
next
  assume same: "any_type l = T \<and> any_type r = T"
  from assms have "T \<noteq> T_void"
    by (auto simp: orderable_def)
  with same obtain a b where ab: "l = Some a" "r = Some b" "type_of a = T" "type_of b = T"
    by (cases l; cases r) (auto simp: any_type_def)
  then have "lessthan_impl T l r = Inr (value_less a b)"
    by (simp add: lessthan_impl_def any_cast_match)
  with ab show "\<exists>a b. l = Some a \<and> r = Some b \<and> lessthan_impl T l r = Inr (value_less a b)"
    by blast
qed

theorem lessthan_impl_throws_on_other_type_witness:
  "orderable T_int
   \<and> lessthan_impl T_int (Some (P_int 1)) (Some (P_string ''1'')) = Inl Bad_any_cast
   \<and> lessthan_impl T_int None (Some (P_int 1)) = Inl Bad_any_cast
   \<and> lessthan_default (Some (P_int 1)) (Some (P_string ''1'')) = Inr False
   \<and> lessthan_impl T_int (Some (P_int 1)) (Some (P_int 2)) = Inr True"
proof -
  have ord: "orderable T_int"
    by (simp add: orderable_def)
  have ty: "any_type (Some (P_string ''1'')) \<noteq> T_int" "any_type None \<noteq> T_int"
    "any_type (Some (P_int 1)) = T_int" "any_type (Some (P_int 2)) = T_int"
    by (simp_all add: any_type_def)
  from lessthan_impl_throws_on_other_type [OF ord, of "Some (P_int 1)" "Some (P_string ''1'')"]
    lessthan_impl_throws_on_other_type [OF ord, of None "Some (P_int 1)"]
    lessthan_impl_throws_on_other_type [OF ord, of "Some (P_int 1)" "Some (P_int 2)"]
    ord ty
  show ?thesis
    by simp
qed

subsection \<open>The weak-reference comparator and the default comparator\<close>

text \<open>
  \<^verbatim>\<open>lessthan<std::weak_ptr<T>>::impl\<close> on two weak pointers to the class \<open>T\<close> is the
  owner-based order, whatever the two pointees are; with one owner it is false in both
  directions.
\<close>

lemma lessthan_weak_ptr_impl_owner_order:
  "lessthan_weak_ptr_impl c (Some (P_weak_ptr c a)) (Some (P_weak_ptr c b))
     = Inr (owner a < owner b)"
  by (simp add: lessthan_weak_ptr_impl_def any_cast_weak_ptr_def owner_before_def)

lemma lessthan_weak_ptr_impl_same_owner:
  assumes "owner a = owner b"
  shows "lessthan_weak_ptr_impl c (Some (P_weak_ptr c a)) (Some (P_weak_ptr c b)) = Inr False"
    and "lessthan_weak_ptr_impl c (Some (P_weak_ptr c b)) (Some (P_weak_ptr c a)) = Inr False"
  using assms by (simp_all add: lessthan_weak_ptr_impl_owner_order)

text \<open>
  The comparator of \<^verbatim>\<open>std::weak_ptr<T>\<close> throws \<^verbatim>\<open>bad_any_cast\<close> on a weak pointer to
  another class, also when the two pointers share their owner, and on every payload
  that is no weak pointer.
\<close>

lemma lessthan_weak_ptr_impl_other_class:
  assumes "d \<noteq> c"
  shows "lessthan_weak_ptr_impl c (Some (P_weak_ptr c a)) (Some (P_weak_ptr d b)) = Inl Bad_any_cast"
    and "lessthan_weak_ptr_impl c (Some (P_weak_ptr d b)) (Some (P_weak_ptr c a)) = Inl Bad_any_cast"
  using assms by (simp_all add: lessthan_weak_ptr_impl_def any_cast_weak_ptr_def)

lemma lessthan_weak_ptr_impl_other_type:
  assumes "any_type l \<noteq> T_weak_ptr c \<or> any_type r \<noteq> T_weak_ptr c"
  shows "lessthan_weak_ptr_impl c l r = Inl Bad_any_cast"
proof -
  have miss: "any_cast_weak_ptr c x = Inl Bad_any_cast" if "any_type x \<noteq> T_weak_ptr c" for x
  proof (cases x)
    case None
    then show ?thesis
      by (simp add: any_cast_weak_ptr_def)
  next
    case (Some p)
    with that show ?thesis
      by (cases p) (simp_all add: any_cast_weak_ptr_def any_type_def)
  qed
  have hit: "any_cast_weak_ptr c x = Inl Bad_any_cast \<or> (\<exists>w. any_cast_weak_ptr c x = Inr w)" for x
    by (cases "any_cast_weak_ptr c x") (auto simp: any_cast_weak_ptr_def split: option.splits payload.splits if_splits)
  from assms show ?thesis
  proof
    assume "any_type l \<noteq> T_weak_ptr c"
    then show ?thesis
      by (simp add: lessthan_weak_ptr_impl_def miss)
  next
    assume "any_type r \<noteq> T_weak_ptr c"
    then have "any_cast_weak_ptr c r = Inl Bad_any_cast"
      by (rule miss)
    with hit [of l] show ?thesis
      by (auto simp: lessthan_weak_ptr_impl_def)
  qed
qed

text \<open>\<^verbatim>\<open>lessthan_default\<close> is false on every pair of objects and throws on none.\<close>

lemma lessthan_default_total_false:
  "lessthan_default l r = Inr False" "lessthan variant_default l r = Inr False"
  by (simp_all add: lessthan_default_def variant_default_def)

section \<open>Properties of the declared operations\<close>

text \<open>
  Claim C1. A variant constructed from a value \<open>p\<close> of type \<open>T\<close> gives \<open>p\<close> back from
  \<^verbatim>\<open>cast<T>()\<close>; \<^verbatim>\<open>cast<U>()\<close> for any other type \<open>U\<close> returns no value: it fails with
  the \<^verbatim>\<open>bad_variant_cast\<close> that records the stored type \<open>T\<close> as \<^verbatim>\<open>from\<close> and the
  requested type \<open>U\<close> as \<^verbatim>\<open>to\<close>. \<open>T\<close> ranges over the types a variant stores as
  they are; a \<^verbatim>\<open>char*\<close> or \<^verbatim>\<open>wchar_t*\<close> argument is stored as a string (the header's
  notes on the class), so it is a value of a string type here.
\<close>

theorem cast_exact_or_typed_error:
  "cast nm (type_of p) (variant_ctor p) = Inr p
   \<and> (U \<noteq> type_of p \<longrightarrow>
        cast nm U (variant_ctor p)
          = Inl (Bad_variant_cast (bad_variant_cast (typeid nm (type_of p)) (typeid nm U)))
        \<and> bad_variant_cast (typeid nm (type_of p)) (typeid nm U)
          = \<lparr>from_name = nm (type_of p), to_name = nm U\<rparr>
        \<and> (\<forall>q. cast nm U (variant_ctor p) \<noteq> Inr q))"
  by (auto simp: cast_def variant_ctor_def get_type_def any_type_def bad_variant_cast_def
      typeid_def)

theorem cast_exact_or_typed_error_witness:
  "cast (\<lambda>t. if t = T_int then ''i'' else ''Ss'') T_int (variant_ctor (P_int 5)) = Inr (P_int 5)
   \<and> cast (\<lambda>t. if t = T_int then ''i'' else ''Ss'') T_string (variant_ctor (P_int 5))
       = Inl (Bad_variant_cast \<lparr>from_name = ''i'', to_name = ''Ss''\<rparr>)"
  using cast_exact_or_typed_error [of "\<lambda>t. if t = T_int then ''i'' else ''Ss''" "P_int 5" T_string]
  by (simp add: bad_variant_cast_def typeid_def)

text \<open>
  Claim C6. After \<^verbatim>\<open>reset()\<close>, whatever the variant held, \<^verbatim>\<open>empty()\<close> is true,
  \<^verbatim>\<open>get_type()\<close> is the identity that stands for "no value", and \<^verbatim>\<open>cast<T>()\<close>
  fails with a \<^verbatim>\<open>bad_variant_cast\<close> for every type \<open>T\<close>.
\<close>

theorem reset_then_empty:
  "empty_variant (reset v)
   \<and> get_type (reset v) = T_void
   \<and> get_type (reset v) = get_type variant_default
   \<and> cast nm T (reset v)
       = Inl (Bad_variant_cast (bad_variant_cast (typeid nm T_void) (typeid nm T)))"
  by (simp add: empty_variant_def reset_def get_type_def any_type_def cast_def
      variant_default_def)

end
